theory Spec2Isabelle
  imports Main
begin

section \<open>Portable schema descriptors\<close>

text \<open>
  The descriptor messages of \<^verbatim>\<open>schema_pb2\<close>: a \<^verbatim>\<open>FieldType\<close> is a \<^verbatim>\<open>nullable\<close> flag
  and an exclusive choice \<^verbatim>\<open>type_info\<close>; a \<^verbatim>\<open>Schema\<close> is an id and an ordered list of
  named fields. \<^verbatim>\<open>NotSet\<close> is the choice \<^verbatim>\<open>WhichOneof\<close> reports as \<^verbatim>\<open>None\<close>. The
  representation of a \<^verbatim>\<open>LogicalType\<close> message is optional: the placeholder for an
  unknown type is built with the urn only.
\<close>

datatype atomic_type =
  UNSPECIFIED | BYTE | INT16 | INT32 | INT64 | FLOAT | DOUBLE | STRING | BOOLEAN | BYTES

datatype fieldtype = FieldType (nullable: bool) (type_info: type_info)
  and type_info =
      NotSet
    | Atomic_type atomic_type
    | Array_type fieldtype
    | Map_type fieldtype fieldtype
    | Row_type schema
    | Logical_type string "fieldtype option"
  and schema = Schema (schema_id: string) (schema_fields: "field list")
  and field = Field (field_name: string) (field_type: fieldtype)

section \<open>Native types\<close>

text \<open>
  The scalar types of the atomic table (\<^verbatim>\<open>np.int8\<close> ... \<^verbatim>\<open>bytes\<close>, and the one-way
  \<^verbatim>\<open>ByteString\<close>, \<^verbatim>\<open>int\<close>, \<^verbatim>\<open>float\<close>).
\<close>

datatype prim =
    np_int8 | np_int16 | np_int32 | np_int64 | np_float32 | np_float64
  | py_str | py_bool | py_bytes | ByteString | py_int | py_float

text \<open>
  A native type as the translator sees it. \<^verbatim>\<open>NamedTuple c\<close> and
  \<^verbatim>\<open>RowTypeConstraint r\<close> are references to objects in the store below: a NamedTuple
  class carries the attribute \<^verbatim>\<open>_beam_schema_id\<close> and a \<^verbatim>\<open>RowTypeConstraint\<close> its
  \<^verbatim>\<open>schema_id\<close>, both assigned during translation, and two classes with equal names
  and fields are still two classes. A subscripted generic carries the list that
  \<^verbatim>\<open>_get_args\<close> returns for it: \<^verbatim>\<open>Mapping_exact\<close> is a type whose origin is exactly
  \<^verbatim>\<open>collections.abc.Mapping\<close> (\<^verbatim>\<open>typing.Mapping[K, V]\<close>), \<^verbatim>\<open>Sequence_like\<close> a type
  for which \<^verbatim>\<open>_safe_issubclass(type_, Sequence)\<close> holds (\<^verbatim>\<open>Sequence[T]\<close>, \<^verbatim>\<open>List[T]\<close>,
  also the bare \<^verbatim>\<open>list\<close>, whose argument list is empty), \<^verbatim>\<open>Mapping_like\<close> one for
  which \<^verbatim>\<open>_safe_issubclass(type_, Mapping)\<close> holds (\<^verbatim>\<open>Dict[K, V]\<close>, \<^verbatim>\<open>dict\<close>); the
  string is the origin's name. \<^verbatim>\<open>SchemaProto\<close> is a \<^verbatim>\<open>Schema\<close> message passed where a
  type is expected, \<^verbatim>\<open>Class\<close> any other class, by name.
\<close>

datatype pytype =
    Prim prim
  | Any
  | NoneType
  | Union "pytype list"
  | Mapping_exact "pytype list"
  | Sequence_like string "pytype list"
  | Mapping_like string "pytype list"
  | NamedTuple nat
  | RowTypeConstraint nat
  | SchemaProto schema
  | Timestamp
  | PythonCallableWithSource
  | Class string

text \<open>
  \<^verbatim>\<open>typing.Union\<close> flattens nested unions, drops repeated members (the first
  occurrence stays) and returns the member itself when one is left;
  \<^verbatim>\<open>typing.Optional[T]\<close> is \<^verbatim>\<open>Union[T, None]\<close>.
\<close>

fun union_members :: "pytype \<Rightarrow> pytype list" where
  "union_members (Union ts) = ts"
| "union_members t = [t]"

definition typing_Union :: "pytype list \<Rightarrow> pytype" where
  "typing_Union ts =
     (case rev (remdups (rev (concat (map union_members ts)))) of
        [t] \<Rightarrow> t
      | us \<Rightarrow> Union us)"

definition Optional :: "pytype \<Rightarrow> pytype" where
  "Optional t = typing_Union [t, NoneType]"

definition Sequence :: "pytype \<Rightarrow> pytype" where
  "Sequence t = Sequence_like ''typing.Sequence'' [t]"

definition Mapping :: "pytype \<Rightarrow> pytype \<Rightarrow> pytype" where
  "Mapping k v = Mapping_exact [k, v]"

section \<open>The store: classes, row constraints, registries\<close>

text \<open>
  Modelled from the spec: \<^verbatim>\<open>row_type.RowTypeConstraint\<close> and the NamedTuple classes it
  wraps are not part of the source file. The spec describes the constraint as an
  ordered name/type field list with an optional previously assigned schema id, and
  says that native types carry their assigned id. A class has a name, its annotated
  fields in order and the attribute \<^verbatim>\<open>_beam_schema_id\<close>; a constraint has its fields,
  the class it was made from (if any) and its own \<^verbatim>\<open>schema_id\<close>.
\<close>

record namedtuple_class =
  class_name :: string
  annotations :: "(string \<times> pytype) list"
  beam_schema_id :: "string option"

record row_type_constraint =
  fields_of :: "(string \<times> pytype) list"
  user_type :: "nat option"
  schema_id_of :: "string option"

text \<open>
  A registered logical type: the class methods \<^verbatim>\<open>urn()\<close>, \<^verbatim>\<open>language_type()\<close> and
  \<^verbatim>\<open>representation_type()\<close>.
\<close>

record logical_type =
  urn :: string
  language_type :: pytype
  representation_type :: pytype

record LogicalTypeRegistry =
  by_urn :: "string \<rightharpoonup> logical_type"
  by_logical_type :: "logical_type \<rightharpoonup> string"
  by_language_type :: "pytype \<rightharpoonup> logical_type"

text \<open>
  \<^verbatim>\<open>SchemaTypeRegistry\<close>: \<^verbatim>\<open>by_id\<close> maps a schema id to the pair (typing, schema). The
  typing is \<^verbatim>\<open>None\<close> when a constraint without a user type was registered.
  (\<^verbatim>\<open>by_typing\<close> is created empty and never read or written.)
\<close>

record SchemaTypeRegistry =
  by_id :: "string \<rightharpoonup> (pytype option \<times> schema)"

text \<open>
  The mutable state the translation runs in. Registries are objects: the translator
  is given one (\<^verbatim>\<open>schema_registry\<close>, an address) and the module also owns the global
  \<^verbatim>\<open>SCHEMA_REGISTRY\<close>. \<^verbatim>\<open>uuid4\<close> is the source of random ids: the stream of the strings
  it returns and the number of calls made so far. \<^verbatim>\<open>coders\<close> lists the classes
  registered with the external coder registry.
\<close>

record state =
  registries :: "nat \<Rightarrow> SchemaTypeRegistry"
  classes :: "namedtuple_class list"
  constraints :: "row_type_constraint list"
  known_logical_types :: LogicalTypeRegistry
  uuid4_stream :: "nat \<Rightarrow> string"
  uuid4_calls :: nat
  coders :: "nat list"

definition SCHEMA_REGISTRY :: nat where
  "SCHEMA_REGISTRY = 0"

definition PYTHON_ANY_URN :: string where
  "PYTHON_ANY_URN = ''beam:logical:pythonsdk_any:v1''"

text \<open>
  Exceptions. The first five are \<^verbatim>\<open>ValueError\<close>s: an atomic kind outside the reverse
  table, an unset \<^verbatim>\<open>type_info\<close>, a urn with no registered logical type, a field that
  failed to decode (with the field and the cause), and a tuple unpacking of the wrong
  length. \<^verbatim>\<open>AssertionError\<close> is id generation giving up (its message, which reports the
  size of the registry, is left out); \<^verbatim>\<open>IndexError\<close> is \<^verbatim>\<open>_get_args(type_)[0]\<close> on an empty tuple.
  \<^verbatim>\<open>NoSuchObject\<close> is not a Python exception: it marks a reference to no object of the
  store, which Python cannot form.
\<close>

datatype exn =
    Unsupported_atomic_type atomic_type
  | Unrecognized_type_info
  | No_logical_type_registered_for_URN string
  | Failed_to_decode_field field exn
  | Unpack_error nat
  | AssertionError
  | IndexError
  | AttributeError
  | NoSuchObject

fun is_ValueError :: "exn \<Rightarrow> bool" where
  "is_ValueError (Unsupported_atomic_type _) = True"
| "is_ValueError Unrecognized_type_info = True"
| "is_ValueError (No_logical_type_registered_for_URN _) = True"
| "is_ValueError (Failed_to_decode_field _ _) = True"
| "is_ValueError (Unpack_error _) = True"
| "is_ValueError _ = False"

text \<open>
  The outcome of a call: a value and the state it leaves, an exception and the state
  at the raise, or \<^verbatim>\<open>OutOfFuel\<close> when the recursion did not end within the given
  depth.
\<close>

datatype 'a result = Return 'a state | Raise exn state | OutOfFuel

definition bind :: "'a result \<Rightarrow> ('a \<Rightarrow> state \<Rightarrow> 'b result) \<Rightarrow> 'b result" where
  "bind m f = (case m of Return x st \<Rightarrow> f x st | Raise e st \<Rightarrow> Raise e st | OutOfFuel \<Rightarrow> OutOfFuel)"

definition lookup :: "'a list \<Rightarrow> nat \<Rightarrow> 'a option" where
  "lookup xs i = (if i < length xs then Some (xs ! i) else None)"


section \<open>The schema registry\<close>

text \<open>
  \<^verbatim>\<open>generate_new_id\<close> draws up to 100 ids and returns the first that is not a key of
  \<^verbatim>\<open>self.by_id\<close>; after 100 draws it raises \<^verbatim>\<open>AssertionError\<close>.
\<close>

fun generate_new_id_tries :: "nat \<Rightarrow> nat \<Rightarrow> state \<Rightarrow> string result" where
  "generate_new_id_tries 0 self st = Raise AssertionError st"
| "generate_new_id_tries (Suc k) self st =
     (let new_id = uuid4_stream st (uuid4_calls st);
          st' = st\<lparr>uuid4_calls := uuid4_calls st + 1\<rparr>
      in if by_id (registries st' self) new_id = None then Return new_id st'
         else generate_new_id_tries k self st')"

definition generate_new_id :: "nat \<Rightarrow> state \<Rightarrow> string result" where
  "generate_new_id self st = generate_new_id_tries 100 self st"

definition registry_add :: "nat \<Rightarrow> pytype option \<Rightarrow> schema \<Rightarrow> state \<Rightarrow> state" where
  "registry_add self typing s st =
     st\<lparr>registries := (registries st)
        (self := (registries st self)
           \<lparr>by_id := (by_id (registries st self))(schema_id s \<mapsto> (typing, s))\<rparr>)\<rparr>"

definition get_typing_by_id :: "nat \<Rightarrow> string \<Rightarrow> state \<Rightarrow> pytype option" where
  "get_typing_by_id self unique_id st =
     (case by_id (registries st self) unique_id of
        None \<Rightarrow> None
      | Some entry \<Rightarrow> fst entry)"

definition get_schema_by_id :: "nat \<Rightarrow> string \<Rightarrow> state \<Rightarrow> schema option" where
  "get_schema_by_id self unique_id st =
     (case by_id (registries st self) unique_id of
        None \<Rightarrow> None
      | Some entry \<Rightarrow> Some (snd entry))"

section \<open>The atomic mapping table\<close>

definition PRIMITIVES :: "(pytype \<times> atomic_type) list" where
  "PRIMITIVES =
     [(Prim np_int8, BYTE),
      (Prim np_int16, INT16),
      (Prim np_int32, INT32),
      (Prim np_int64, INT64),
      (Prim np_float32, FLOAT),
      (Prim np_float64, DOUBLE),
      (Prim py_str, STRING),
      (Prim py_bool, BOOLEAN),
      (Prim py_bytes, BYTES)]"

definition PRIMITIVE_TO_ATOMIC_TYPE :: "pytype \<rightharpoonup> atomic_type" where
  "PRIMITIVE_TO_ATOMIC_TYPE =
     (map_of PRIMITIVES)
       (Prim ByteString \<mapsto> BYTES, Prim py_int \<mapsto> INT64, Prim py_float \<mapsto> DOUBLE)"

definition ATOMIC_TYPE_TO_PRIMITIVE :: "atomic_type \<rightharpoonup> pytype" where
  "ATOMIC_TYPE_TO_PRIMITIVE = map_of (map (\<lambda>(t, atomic). (atomic, t)) PRIMITIVES)"

section \<open>Type introspection\<close>

text \<open>
  Modelled from the spec: the helpers of \<^verbatim>\<open>native_type_compatibility\<close> are not part of
  the source file. \<^verbatim>\<open>_get_args\<close> returns the arguments of a subscripted generic (none
  for any other type); an exact generic mapping is a type whose origin is the abstract
  mapping itself; an optional is the union of exactly one type and \<^verbatim>\<open>None\<close>, and
  \<^verbatim>\<open>extract_optional_type\<close> returns that type (\<^verbatim>\<open>None\<close>, here \<^verbatim>\<open>NoneType\<close>, for a
  type that is no optional).
\<close>

fun get_args :: "pytype \<Rightarrow> pytype list" where
  "get_args (Union ts) = ts"
| "get_args (Mapping_exact ts) = ts"
| "get_args (Sequence_like _ ts) = ts"
| "get_args (Mapping_like _ ts) = ts"
| "get_args _ = []"

fun match_is_exactly_mapping :: "pytype \<Rightarrow> bool" where
  "match_is_exactly_mapping (Mapping_exact _) = True"
| "match_is_exactly_mapping _ = False"

fun match_is_optional :: "pytype \<Rightarrow> bool" where
  "match_is_optional (Union ts) =
     (length ts = 2 \<and> length (filter (\<lambda>t. t = NoneType) ts) = 1)"
| "match_is_optional _ = False"

fun extract_optional_type :: "pytype \<Rightarrow> pytype" where
  "extract_optional_type (Union ts) =
     (if match_is_optional (Union ts)
      then (case filter (\<lambda>t. t \<noteq> NoneType) ts of t # _ \<Rightarrow> t | [] \<Rightarrow> NoneType)
      else NoneType)"
| "extract_optional_type _ = NoneType"

fun issubclass_Sequence :: "pytype \<Rightarrow> bool" where
  "issubclass_Sequence (Sequence_like _ _) = True"
| "issubclass_Sequence _ = False"

fun issubclass_Mapping :: "pytype \<Rightarrow> bool" where
  "issubclass_Mapping (Mapping_like _ _) = True"
| "issubclass_Mapping (Mapping_exact _) = True"
| "issubclass_Mapping _ = False"

text \<open>
  \<^verbatim>\<open>RowTypeConstraint.from_user_type\<close> returns a new constraint for a NamedTuple class,
  with the class's fields and the id the class carries, and \<^verbatim>\<open>None\<close> for any other
  type. \<^verbatim>\<open>set_schema_id\<close> stores the id in the constraint and in its user type.
\<close>

definition from_user_type :: "pytype \<Rightarrow> state \<Rightarrow> nat option result" where
  "from_user_type t st =
     (case t of
        NamedTuple c \<Rightarrow>
          (case lookup (classes st) c of
             None \<Rightarrow> Raise NoSuchObject st
           | Some cls \<Rightarrow>
               Return (Some (length (constraints st)))
                 (st\<lparr>constraints := constraints st @
                    [\<lparr>fields_of = annotations cls, user_type = Some c,
                      schema_id_of = beam_schema_id cls\<rparr>]\<rparr>))
      | _ \<Rightarrow> Return None st)"

definition set_schema_id :: "nat \<Rightarrow> string \<Rightarrow> state \<Rightarrow> state" where
  "set_schema_id r new_id st =
     (let st1 = st\<lparr>constraints :=
                 (constraints st)[r := (constraints st ! r)\<lparr>schema_id_of := Some new_id\<rparr>]\<rparr>
      in case user_type (constraints st ! r) of
           None \<Rightarrow> st1
         | Some c \<Rightarrow>
             st1\<lparr>classes := (classes st1)[c := (classes st1 ! c)\<lparr>beam_schema_id := Some new_id\<rparr>]\<rparr>)"

definition user_type_of :: "row_type_constraint \<Rightarrow> pytype option" where
  "user_type_of rc = map_option NamedTuple (user_type rc)"

section \<open>The logical type registry\<close>

definition LogicalTypeRegistry_add ::
  "string \<Rightarrow> logical_type \<Rightarrow> LogicalTypeRegistry \<Rightarrow> LogicalTypeRegistry" where
  "LogicalTypeRegistry_add u lt r =
     r\<lparr>by_urn := (by_urn r)(u \<mapsto> lt),
       by_logical_type := (by_logical_type r)(lt \<mapsto> u),
       by_language_type := (by_language_type r)(language_type lt \<mapsto> lt)\<rparr>"

definition register_logical_type :: "logical_type \<Rightarrow> state \<Rightarrow> state" where
  "register_logical_type lt st =
     st\<lparr>known_logical_types := LogicalTypeRegistry_add (urn lt) lt (known_logical_types st)\<rparr>"

text \<open>
  \<^verbatim>\<open>LogicalType.from_typing\<close> and \<^verbatim>\<open>LogicalType.from_runner_api\<close> raise \<^verbatim>\<open>ValueError\<close>
  when nothing is registered: here \<^verbatim>\<open>None\<close>, which each caller turns into what the
  source does with the exception.
\<close>

definition from_typing :: "pytype \<Rightarrow> state \<Rightarrow> logical_type option" where
  "from_typing typ st = by_language_type (known_logical_types st) typ"

definition from_runner_api :: "string \<Rightarrow> state \<Rightarrow> logical_type option" where
  "from_runner_api u st = by_urn (known_logical_types st) u"


section \<open>Encode: native type to descriptor\<close>

text \<open>
  \<^verbatim>\<open>SchemaTranslation.typing_to_runner_api\<close>, with the translator's registry
  \<^verbatim>\<open>schema_registry\<close>; \<open>ty\<close> is the source's \<^verbatim>\<open>type_\<close>. The first argument bounds the depth of the recursion: the source
  recurses on the fields of classes, which the store may tie into a cycle.
  \<^verbatim>\<open>typing_to_runner_api_each\<close> is the translation of a list of types from left to
  right, as the list comprehension over the fields and the \<^verbatim>\<open>map\<close> over the arguments
  do. Unpacking \<^verbatim>\<open>key_type, value_type = map(...)\<close> draws at most three items from the
  \<^verbatim>\<open>map\<close> and raises \<^verbatim>\<open>ValueError\<close> unless there are exactly two.
\<close>

fun typing_to_runner_api :: "nat \<Rightarrow> nat \<Rightarrow> pytype \<Rightarrow> state \<Rightarrow> fieldtype result"
  and typing_to_runner_api_each :: "nat \<Rightarrow> nat \<Rightarrow> pytype list \<Rightarrow> state \<Rightarrow> fieldtype list result"
where
  "typing_to_runner_api 0 schema_registry ty st = OutOfFuel"
| "typing_to_runner_api (Suc n) schema_registry ty st =
     (case ty of
        SchemaProto s \<Rightarrow> Return (FieldType False (Row_type s)) st
      | RowTypeConstraint r \<Rightarrow>
          (case lookup (constraints st) r of
             None \<Rightarrow> Raise NoSuchObject st
           | Some rc \<Rightarrow>
               bind
                 (case schema_id_of rc of
                    None \<Rightarrow>
                      bind (generate_new_id SCHEMA_REGISTRY st)
                        (\<lambda>new_id st1. Return (new_id, None) (set_schema_id r new_id st1))
                  | Some old_id \<Rightarrow>
                      Return (old_id, get_schema_by_id schema_registry old_id st) st)
                 (\<lambda>(the_id, found) st2.
                    case found of
                      Some s \<Rightarrow> Return (FieldType False (Row_type s)) st2
                    | None \<Rightarrow>
                        bind (typing_to_runner_api_each n schema_registry
                                (map snd (fields_of rc)) st2)
                          (\<lambda>fts st3.
                             let s = Schema the_id (map2 Field (map fst (fields_of rc)) fts)
                             in Return (FieldType False (Row_type s))
                                  (registry_add schema_registry (user_type_of rc) s st3))))
      | _ \<Rightarrow>
          bind (from_user_type ty st)
            (\<lambda>row_type_constraint st1.
               case row_type_constraint of
                 Some r \<Rightarrow> typing_to_runner_api n schema_registry (RowTypeConstraint r) st1
               | None \<Rightarrow>
                   (case PRIMITIVE_TO_ATOMIC_TYPE ty of
                      Some atomic \<Rightarrow> Return (FieldType False (Atomic_type atomic)) st1
                    | None \<Rightarrow>
                        if match_is_exactly_mapping ty then
                          bind (typing_to_runner_api_each n schema_registry
                                  (take 3 (get_args ty)) st1)
                            (\<lambda>fts st2.
                               case fts of
                                 [key_type, value_type] \<Rightarrow>
                                   Return (FieldType False (Map_type key_type value_type)) st2
                               | _ \<Rightarrow> Raise (Unpack_error (length fts)) st2)
                        else if match_is_optional ty then
                          bind (typing_to_runner_api n schema_registry
                                  (extract_optional_type ty) st1)
                            (\<lambda>res st2. Return (FieldType True (type_info res)) st2)
                        else if issubclass_Sequence ty then
                          (case get_args ty of
                             [] \<Rightarrow> Raise IndexError st1
                           | t # _ \<Rightarrow>
                               bind (typing_to_runner_api n schema_registry t st1)
                                 (\<lambda>element_type st2.
                                    Return (FieldType False (Array_type element_type)) st2))
                        else if issubclass_Mapping ty then
                          bind (typing_to_runner_api_each n schema_registry
                                  (take 3 (get_args ty)) st1)
                            (\<lambda>fts st2.
                               case fts of
                                 [key_type, value_type] \<Rightarrow>
                                   Return (FieldType False (Map_type key_type value_type)) st2
                               | _ \<Rightarrow> Raise (Unpack_error (length fts)) st2)
                        else
                          (case from_typing ty st1 of
                             None \<Rightarrow>
                               Return (FieldType True (Logical_type PYTHON_ANY_URN None)) st1
                           | Some lt \<Rightarrow>
                               bind (typing_to_runner_api n schema_registry
                                       (representation_type lt) st1)
                                 (\<lambda>rep st2.
                                    Return (FieldType False (Logical_type (urn lt) (Some rep)))
                                      st2)))))"
| "typing_to_runner_api_each n schema_registry [] st = Return [] st"
| "typing_to_runner_api_each n schema_registry (t # ts) st =
     bind (typing_to_runner_api n schema_registry t st)
       (\<lambda>ft st1.
          bind (typing_to_runner_api_each n schema_registry ts st1)
            (\<lambda>fts st2. Return (ft # fts) st2))"

text \<open>
  \<^verbatim>\<open>named_fields_to_schema\<close>: the fields are translated first (with the global
  registry, the default of the module-level \<^verbatim>\<open>typing_to_runner_api\<close>), then the id is
  generated. The schema is returned and not added to any registry.
\<close>

definition named_fields_to_schema :: "nat \<Rightarrow> (string \<times> pytype) list \<Rightarrow> state \<Rightarrow> schema result" where
  "named_fields_to_schema n names_and_types st =
     bind (typing_to_runner_api_each n SCHEMA_REGISTRY (map snd names_and_types) st)
       (\<lambda>fts st1.
          bind (generate_new_id SCHEMA_REGISTRY st1)
            (\<lambda>new_id st2.
               Return (Schema new_id (map2 Field (map fst names_and_types) fts)) st2))"


section \<open>Decode: descriptor to native type\<close>

text \<open>
  \<^verbatim>\<open>SchemaTranslation.typing_from_runner_api\<close>. \<^verbatim>\<open>decode_fields\<close> is the loop over
  \<^verbatim>\<open>schema.fields\<close> that builds \<^verbatim>\<open>subfields\<close>: a \<^verbatim>\<open>ValueError\<close> of a field is raised
  again with the field attached, and a field that decodes to a constraint is replaced
  by the constraint's user type. An unknown schema id makes a new NamedTuple class
  \<^verbatim>\<open>BeamSchema_<id>\<close>, which is added to the registry and to the coder registry
  before the constraint made from it gets the id. (The standard library's
  \<^verbatim>\<open>NamedTuple\<close> is taken to accept the name and the field names.)
\<close>

definition type_name_of :: "string \<Rightarrow> string" where
  "type_name_of sid = ''BeamSchema_'' @ map (\<lambda>c. if c = CHR ''-'' then CHR ''_'' else c) sid"

function typing_from_runner_api :: "nat \<Rightarrow> fieldtype \<Rightarrow> state \<Rightarrow> pytype result"
  and decode_fields :: "nat \<Rightarrow> field list \<Rightarrow> state \<Rightarrow> (string \<times> pytype) list result"
where
  "typing_from_runner_api schema_registry (FieldType is_nullable info) st =
     (if is_nullable then
        bind (typing_from_runner_api schema_registry (FieldType False info) st)
          (\<lambda>base st1. if base = Any then Return base st1 else Return (Optional base) st1)
      else
        (case info of
           Atomic_type atomic \<Rightarrow>
             (case ATOMIC_TYPE_TO_PRIMITIVE atomic of
                Some t \<Rightarrow> Return t st
              | None \<Rightarrow> Raise (Unsupported_atomic_type atomic) st)
         | Array_type element_type \<Rightarrow>
             bind (typing_from_runner_api schema_registry element_type st)
               (\<lambda>t st1. Return (Sequence t) st1)
         | Map_type key_type value_type \<Rightarrow>
             bind (typing_from_runner_api schema_registry key_type st)
               (\<lambda>k st1.
                  bind (typing_from_runner_api schema_registry value_type st1)
                    (\<lambda>v st2. Return (Mapping k v) st2))
         | Row_type (Schema sid flds) \<Rightarrow>
             (case get_typing_by_id schema_registry sid st of
                None \<Rightarrow>
                  bind (decode_fields schema_registry flds st)
                    (\<lambda>subfields st1.
                       let c = length (classes st1);
                           st2 = st1\<lparr>classes := classes st1 @
                                   [\<lparr>class_name = type_name_of sid, annotations = subfields,
                                     beam_schema_id = None\<rparr>]\<rparr>;
                           st3 = registry_add schema_registry (Some (NamedTuple c))
                                   (Schema sid flds) st2;
                           st4 = st3\<lparr>coders := coders st3 @ [c]\<rparr>
                       in bind (from_user_type (NamedTuple c) st4)
                            (\<lambda>res st5.
                               case res of
                                 Some r \<Rightarrow> Return (RowTypeConstraint r) (set_schema_id r sid st5)
                               | None \<Rightarrow> Raise AttributeError st5))
              | Some the_user_type \<Rightarrow>
                  bind (from_user_type the_user_type st)
                    (\<lambda>res st1.
                       Return (case res of Some r \<Rightarrow> RowTypeConstraint r | None \<Rightarrow> NoneType) st1))
         | Logical_type u rep \<Rightarrow>
             if u = PYTHON_ANY_URN then Return Any st
             else
               (case from_runner_api u st of
                  None \<Rightarrow> Raise (No_logical_type_registered_for_URN u) st
                | Some lt \<Rightarrow> Return (language_type lt) st)
         | NotSet \<Rightarrow> Raise Unrecognized_type_info st))"
| "decode_fields schema_registry [] st = Return [] st"
| "decode_fields schema_registry (Field name ftype # fs) st =
     (case typing_from_runner_api schema_registry ftype st of
        Return field_py_type st1 \<Rightarrow>
          bind
            (case field_py_type of
               RowTypeConstraint r \<Rightarrow>
                 (case lookup (constraints st1) r of
                    None \<Rightarrow> Raise NoSuchObject st1
                  | Some rc \<Rightarrow>
                      Return (case user_type_of rc of Some t \<Rightarrow> t | None \<Rightarrow> NoneType) st1)
             | _ \<Rightarrow> Return field_py_type st1)
            (\<lambda>t st2.
               bind (decode_fields schema_registry fs st2)
                 (\<lambda>subfields st3. Return ((name, t) # subfields) st3))
      | Raise e st1 \<Rightarrow>
          if is_ValueError e then Raise (Failed_to_decode_field (Field name ftype) e) st1
          else Raise e st1
      | OutOfFuel \<Rightarrow> OutOfFuel)"
  by pat_completeness auto
termination
  by (relation "measure (\<lambda>x. case x of
          Inl (_, ft, _) \<Rightarrow> 2 * size ft + (if nullable ft then 1 else 0)
        | Inr (_, fs, _) \<Rightarrow> 2 * size_list size fs)") auto


section \<open>The built-in logical types\<close>

text \<open>
  The urns are constants of \<^verbatim>\<open>common_urns\<close>. \<^verbatim>\<open>MicrosInstantRepresentation\<close> is a
  NamedTuple class, the first object of the store once the module is loaded;
  \<^verbatim>\<open>loaded\<close> is the state after the module's top level has run, for a given source of
  ids.
\<close>

definition micros_instant_urn :: string where
  "micros_instant_urn = ''beam:logical_type:micros_instant:v1''"

definition python_callable_urn :: string where
  "python_callable_urn = ''beam:logical_type:python_callable:v1''"

definition MicrosInstantRepresentation_class :: namedtuple_class where
  "MicrosInstantRepresentation_class =
     \<lparr>class_name = ''MicrosInstantRepresentation'',
      annotations = [(''seconds'', Prim np_int64), (''micros'', Prim np_int64)],
      beam_schema_id = None\<rparr>"

definition MicrosInstant :: logical_type where
  "MicrosInstant =
     \<lparr>urn = micros_instant_urn, language_type = Timestamp, representation_type = NamedTuple 0\<rparr>"

definition PythonCallable :: logical_type where
  "PythonCallable =
     \<lparr>urn = python_callable_urn, language_type = PythonCallableWithSource,
      representation_type = Prim py_str\<rparr>"

definition loaded :: "(nat \<Rightarrow> string) \<Rightarrow> state" where
  "loaded ids =
     register_logical_type PythonCallable
       (register_logical_type MicrosInstant
          \<lparr>registries = (\<lambda>_. \<lparr>by_id = Map.empty\<rparr>),
           classes = [MicrosInstantRepresentation_class],
           constraints = [],
           known_logical_types =
             \<lparr>by_urn = Map.empty, by_logical_type = Map.empty, by_language_type = Map.empty\<rparr>,
           uuid4_stream = ids,
           uuid4_calls = 0,
           coders = []\<rparr>)"

text \<open>
  Modelled from the spec: the class \<^verbatim>\<open>Timestamp\<close> of \<^verbatim>\<open>apache_beam.utils.timestamp\<close> is
  not part of the source file. The spec describes it as a value holding whole seconds
  and a microsecond-of-second component that recombine into one microsecond-resolution
  offset: a timestamp is its \<^verbatim>\<open>micros\<close>, and \<^verbatim>\<open>Timestamp(seconds, micros)\<close> is the
  offset \<^verbatim>\<open>seconds * 1000000 + micros\<close>. Python's integers are unbounded, and its
  \<^verbatim>\<open>//\<close> and \<^verbatim>\<open>%\<close> round towards minus infinity, as \<open>div\<close> and \<open>mod\<close> on \<open>int\<close> do.
\<close>

datatype timestamp = Timestamp_micros (micros: int)

definition Timestamp_init :: "int \<Rightarrow> int \<Rightarrow> timestamp" where
  "Timestamp_init seconds_arg micros_arg = Timestamp_micros (seconds_arg * 1000000 + micros_arg)"

datatype micros_instant_representation =
  MicrosInstantRepresentation (rep_seconds: int) (rep_micros: int)

definition to_representation_type :: "timestamp \<Rightarrow> micros_instant_representation" where
  "to_representation_type v =
     MicrosInstantRepresentation (micros v div 1000000) (micros v mod 1000000)"

definition to_language_type :: "micros_instant_representation \<Rightarrow> timestamp" where
  "to_language_type v = Timestamp_init (rep_seconds v) (rep_micros v)"


section \<open>Unfolding the translators\<close>

declare typing_to_runner_api.simps(2) [simp del]

lemma bind_Return [simp]: "bind (Return x st) f = f x st"
  by (simp add: bind_def)

lemma bind_Raise [simp]: "bind (Raise e st) f = Raise e st"
  by (simp add: bind_def)

lemma bind_OutOfFuel [simp]: "bind OutOfFuel f = OutOfFuel"
  by (simp add: bind_def)

lemma from_user_type_Prim [simp]: "from_user_type (Prim p) st = Return None st"
  by (simp add: from_user_type_def)

lemma typing_to_runner_api_atomic:
  "PRIMITIVE_TO_ATOMIC_TYPE (Prim p) = Some atomic \<Longrightarrow>
   typing_to_runner_api (Suc n) reg (Prim p) st = Return (FieldType False (Atomic_type atomic)) st"
  by (simp add: typing_to_runner_api.simps(2))

lemma typing_from_runner_api_atomic:
  "ATOMIC_TYPE_TO_PRIMITIVE atomic = Some t \<Longrightarrow>
   typing_from_runner_api reg (FieldType False (Atomic_type atomic)) st = Return t st"
  by simp

lemma PRIMITIVE_TO_ATOMIC_TYPE_bijective:
  "PRIMITIVE_TO_ATOMIC_TYPE (Prim np_int8) = Some BYTE"
  "PRIMITIVE_TO_ATOMIC_TYPE (Prim np_int16) = Some INT16"
  "PRIMITIVE_TO_ATOMIC_TYPE (Prim np_int32) = Some INT32"
  "PRIMITIVE_TO_ATOMIC_TYPE (Prim np_int64) = Some INT64"
  "PRIMITIVE_TO_ATOMIC_TYPE (Prim np_float32) = Some FLOAT"
  "PRIMITIVE_TO_ATOMIC_TYPE (Prim np_float64) = Some DOUBLE"
  "PRIMITIVE_TO_ATOMIC_TYPE (Prim py_str) = Some STRING"
  "PRIMITIVE_TO_ATOMIC_TYPE (Prim py_bool) = Some BOOLEAN"
  "PRIMITIVE_TO_ATOMIC_TYPE (Prim py_bytes) = Some BYTES"
  by (simp_all add: PRIMITIVE_TO_ATOMIC_TYPE_def PRIMITIVES_def)

lemma PRIMITIVE_TO_ATOMIC_TYPE_one_way:
  "PRIMITIVE_TO_ATOMIC_TYPE (Prim ByteString) = Some BYTES"
  "PRIMITIVE_TO_ATOMIC_TYPE (Prim py_int) = Some INT64"
  "PRIMITIVE_TO_ATOMIC_TYPE (Prim py_float) = Some DOUBLE"
  by (simp_all add: PRIMITIVE_TO_ATOMIC_TYPE_def PRIMITIVES_def)

lemma ATOMIC_TYPE_TO_PRIMITIVE_values:
  "ATOMIC_TYPE_TO_PRIMITIVE BYTE = Some (Prim np_int8)"
  "ATOMIC_TYPE_TO_PRIMITIVE INT16 = Some (Prim np_int16)"
  "ATOMIC_TYPE_TO_PRIMITIVE INT32 = Some (Prim np_int32)"
  "ATOMIC_TYPE_TO_PRIMITIVE INT64 = Some (Prim np_int64)"
  "ATOMIC_TYPE_TO_PRIMITIVE FLOAT = Some (Prim np_float32)"
  "ATOMIC_TYPE_TO_PRIMITIVE DOUBLE = Some (Prim np_float64)"
  "ATOMIC_TYPE_TO_PRIMITIVE STRING = Some (Prim py_str)"
  "ATOMIC_TYPE_TO_PRIMITIVE BOOLEAN = Some (Prim py_bool)"
  "ATOMIC_TYPE_TO_PRIMITIVE BYTES = Some (Prim py_bytes)"
  "ATOMIC_TYPE_TO_PRIMITIVE UNSPECIFIED = None"
  by (simp_all add: ATOMIC_TYPE_TO_PRIMITIVE_def PRIMITIVES_def)

section \<open>Atomic round trips\<close>

text \<open>
  Claim C5. For each of the nine types of the bijective table (\<^verbatim>\<open>np.int8\<close>,
  \<^verbatim>\<open>np.int16\<close>, \<^verbatim>\<open>np.int32\<close>, \<^verbatim>\<open>np.int64\<close>, \<^verbatim>\<open>np.float32\<close>, \<^verbatim>\<open>np.float64\<close>, \<^verbatim>\<open>str\<close>,
  \<^verbatim>\<open>bool\<close>, \<^verbatim>\<open>bytes\<close>), in any state and with any registry, encoding returns a
  descriptor and decoding that descriptor returns the type itself; neither call
  changes the state.
\<close>

theorem bijective_atomic_round_trip:
  assumes "t \<in> {Prim np_int8, Prim np_int16, Prim np_int32, Prim np_int64, Prim np_float32,
                Prim np_float64, Prim py_str, Prim py_bool, Prim py_bytes}"
  shows "bind (typing_to_runner_api (Suc n) reg t st)
           (\<lambda>ft st1. typing_from_runner_api reg ft st1) = Return t st"
  using assms
  by (auto simp: typing_to_runner_api_atomic PRIMITIVE_TO_ATOMIC_TYPE_bijective
      ATOMIC_TYPE_TO_PRIMITIVE_values)

theorem bijective_atomic_round_trip_witness:
  "Prim py_str \<in> {Prim np_int8, Prim np_int16, Prim np_int32, Prim np_int64, Prim np_float32,
                   Prim np_float64, Prim py_str, Prim py_bool, Prim py_bytes}
   \<and> bind (typing_to_runner_api (Suc 0) SCHEMA_REGISTRY (Prim py_str) (loaded (\<lambda>i. ''id'')))
     (\<lambda>ft st1. typing_from_runner_api SCHEMA_REGISTRY ft st1)
   = Return (Prim py_str) (loaded (\<lambda>i. ''id''))"
  using bijective_atomic_round_trip [of "Prim py_str" 0 SCHEMA_REGISTRY "loaded (\<lambda>i. ''id'')"]
  by simp

text \<open>
  Claim C7. Encoding Python's \<^verbatim>\<open>int\<close> gives the atomic descriptor \<^verbatim>\<open>INT64\<close>, and
  decoding that descriptor gives \<^verbatim>\<open>np.int64\<close>, which is not \<^verbatim>\<open>int\<close>.
\<close>

theorem lossy_int_round_trip:
  "typing_to_runner_api (Suc n) reg (Prim py_int) st
     = Return (FieldType False (Atomic_type INT64)) st
   \<and> typing_from_runner_api reg (FieldType False (Atomic_type INT64)) st
     = Return (Prim np_int64) st
   \<and> bind (typing_to_runner_api (Suc n) reg (Prim py_int) st)
       (\<lambda>ft st1. typing_from_runner_api reg ft st1) = Return (Prim np_int64) st
   \<and> Prim np_int64 \<noteq> Prim py_int"
  by (simp add: typing_to_runner_api_atomic PRIMITIVE_TO_ATOMIC_TYPE_one_way
      ATOMIC_TYPE_TO_PRIMITIVE_values)

section \<open>The instant logical type\<close>

text \<open>
  Claim C8. For every timestamp \<open>v\<close>, negative offsets included,
  \<^verbatim>\<open>MicrosInstant.to_language_type(MicrosInstant.to_representation_type(v))\<close> is \<open>v\<close>;
  the offset of 1500000 microseconds is represented as 1 second and 500000
  microseconds.
\<close>

theorem micros_instant_round_trip:
  "to_language_type (to_representation_type v) = v
   \<and> to_representation_type (Timestamp_micros 1500000) = MicrosInstantRepresentation 1 500000"
  by (cases v) (simp add: to_language_type_def to_representation_type_def Timestamp_init_def)

section \<open>Decoding a logical descriptor\<close>

text \<open>
  Claim C9. Decoding a descriptor whose choice is \<^verbatim>\<open>logical_type\<close> (the \<^verbatim>\<open>nullable\<close> flag,
  which decode handles before the choice, being clear): the placeholder urn gives
  \<^verbatim>\<open>Any\<close>; any other urn with no registered logical type raises the \<^verbatim>\<open>ValueError\<close> that
  names the urn; a registered urn gives the \<^verbatim>\<open>language_type\<close> of its logical type.
  The representation in the descriptor is not looked at and the state is left as it
  was. The placeholder decodes to \<^verbatim>\<open>Any\<close> with the flag set as well.
\<close>

theorem decode_logical_descriptor:
  "typing_from_runner_api reg (FieldType False (Logical_type u rep)) st =
     (if u = PYTHON_ANY_URN then Return Any st
      else case by_urn (known_logical_types st) u of
             None \<Rightarrow> Raise (No_logical_type_registered_for_URN u) st
           | Some lt \<Rightarrow> Return (language_type lt) st)
   \<and> typing_from_runner_api reg (FieldType flag (Logical_type PYTHON_ANY_URN rep)) st
     = Return Any st"
  by (simp add: from_runner_api_def)

end
